theory Spec2Isabelle
  imports Complex_Main "HOL-Library.Sublist"
begin

section \<open>Values received from the server\<close>

text \<open>
  The script \<^verbatim>\<open>static/script.js\<close> reads properties of objects that come out of
  \<^verbatim>\<open>response.json()\<close>. A property of such an object is missing (reading it gives
  \<^verbatim>\<open>undefined\<close>), is \<^verbatim>\<open>null\<close>, or carries a value. The payload types follow the
  way the script uses each property: text properties are strings, \<^verbatim>\<open>year\<close>,
  \<^verbatim>\<open>rating\<close> and \<^verbatim>\<open>similarity\<close> are integer-valued numbers, \<^verbatim>\<open>not_found\<close> and
  \<^verbatim>\<open>success\<close> are booleans, \<^verbatim>\<open>suggestions\<close> and \<^verbatim>\<open>recommendations\<close> are arrays of
  movie objects. Numbers with a fractional part, and values of another type than the one
  the script expects, are outside this model. The text the server sends is ASCII; text
  beyond ASCII (the character U+2B50 of the script's own templates, and what a user may
  type into the name field) is kept as its UTF-8 bytes.
\<close>

datatype 'a field = Absent | Null | Val 'a

text \<open>Truthiness, as \<^verbatim>\<open>if (x)\<close>, \<^verbatim>\<open>x ? a : b\<close>, \<^verbatim>\<open>x || y\<close> and \<^verbatim>\<open>x && y\<close> test it.\<close>

definition truthy_str :: "string field \<Rightarrow> bool" where
  "truthy_str f = (case f of Val s \<Rightarrow> s \<noteq> [] | Null \<Rightarrow> False | Absent \<Rightarrow> False)"

definition truthy_num :: "int field \<Rightarrow> bool" where
  "truthy_num f = (case f of Val n \<Rightarrow> n \<noteq> 0 | Null \<Rightarrow> False | Absent \<Rightarrow> False)"

definition truthy_bool :: "bool field \<Rightarrow> bool" where
  "truthy_bool f = (case f of Val b \<Rightarrow> b | Null \<Rightarrow> False | Absent \<Rightarrow> False)"

text \<open>
  \<^verbatim>\<open>x > 0\<close> on a number property: \<^verbatim>\<open>undefined\<close> converts to NaN and \<^verbatim>\<open>null\<close> to 0,
  and neither is greater than 0.
\<close>

definition gt_zero :: "int field \<Rightarrow> bool" where
  "gt_zero f = (case f of Val n \<Rightarrow> 0 < n | Null \<Rightarrow> False | Absent \<Rightarrow> False)"

text \<open>
  Conversion to a string inside a template literal, \<^verbatim>\<open>${x}\<close>. A number is written in
  decimal; \<open>digit_char d\<close> is the digit \<open>d\<close>, for \<open>d\<close> below 10.
\<close>

fun digit_char :: "nat \<Rightarrow> char" where
  "digit_char d = ''0123456789'' ! d"

fun nat_digits :: "nat \<Rightarrow> string" where
  "nat_digits n =
     (if n < 10 then [digit_char n] else nat_digits (n div 10) @ [digit_char (n mod 10)])"

definition num_to_string :: "int \<Rightarrow> string" where
  "num_to_string n = (if n < 0 then CHR ''-'' # nat_digits (nat (- n)) else nat_digits (nat n))"

definition tpl_str :: "string field \<Rightarrow> string" where
  "tpl_str f = (case f of Val s \<Rightarrow> s | Null \<Rightarrow> ''null'' | Absent \<Rightarrow> ''undefined'')"

definition tpl_num :: "int field \<Rightarrow> string" where
  "tpl_num f = (case f of Val n \<Rightarrow> num_to_string n | Null \<Rightarrow> ''null'' | Absent \<Rightarrow> ''undefined'')"

text \<open>
  The string methods the script calls: \<^verbatim>\<open>trim\<close>, \<^verbatim>\<open>split\<close>, \<^verbatim>\<open>join\<close>.

  \<^verbatim>\<open>trim\<close> strips the white space and line terminator characters of ECMAScript from
  both ends: U+0009 to U+000D, U+0020, U+00A0, U+1680, U+2000 to U+200A, U+2028, U+2029,
  U+202F, U+205F, U+3000 and U+FEFF. Text beyond ASCII is kept as its UTF-8 bytes, so
  each of these characters is a sequence of one, two or three bytes, and
  \<open>js_whitespace w\<close> says that \<open>w\<close> is one of these sequences.
\<close>

definition whitespace_encodings :: "string list" where
  "whitespace_encodings =
     [[CHR 0x09], [CHR 0x0A], [CHR 0x0B], [CHR 0x0C], [CHR 0x0D], [CHR 0x20],
      [CHR 0xC2, CHR 0xA0],
      [CHR 0xE1, CHR 0x9A, CHR 0x80],
      [CHR 0xE2, CHR 0x80, CHR 0x80], [CHR 0xE2, CHR 0x80, CHR 0x81],
      [CHR 0xE2, CHR 0x80, CHR 0x82], [CHR 0xE2, CHR 0x80, CHR 0x83],
      [CHR 0xE2, CHR 0x80, CHR 0x84], [CHR 0xE2, CHR 0x80, CHR 0x85],
      [CHR 0xE2, CHR 0x80, CHR 0x86], [CHR 0xE2, CHR 0x80, CHR 0x87],
      [CHR 0xE2, CHR 0x80, CHR 0x88], [CHR 0xE2, CHR 0x80, CHR 0x89],
      [CHR 0xE2, CHR 0x80, CHR 0x8A],
      [CHR 0xE2, CHR 0x80, CHR 0xA8], [CHR 0xE2, CHR 0x80, CHR 0xA9],
      [CHR 0xE2, CHR 0x80, CHR 0xAF],
      [CHR 0xE2, CHR 0x81, CHR 0x9F],
      [CHR 0xE3, CHR 0x80, CHR 0x80],
      [CHR 0xEF, CHR 0xBB, CHR 0xBF]]"

definition js_whitespace :: "string \<Rightarrow> bool" where
  "js_whitespace w = (w \<in> set whitespace_encodings)"

text \<open>Stripping at the start: the first one, two or three bytes are tried, in this order.\<close>

fun js_trimStart :: "string \<Rightarrow> string" where
  "js_trimStart (a # b # c # s) =
     (if js_whitespace [a] then js_trimStart (b # c # s)
      else if js_whitespace [a, b] then js_trimStart (c # s)
      else if js_whitespace [a, b, c] then js_trimStart s
      else a # b # c # s)"
| "js_trimStart [a, b] =
     (if js_whitespace [a] then js_trimStart [b]
      else if js_whitespace [a, b] then []
      else [a, b])"
| "js_trimStart [a] = (if js_whitespace [a] then [] else [a])"
| "js_trimStart [] = []"

text \<open>
  Stripping at the end, on the reversed text: the last one, two or three bytes are
  tried. A two- or three-byte sequence of the table starts with a lead byte, so where it
  ends a well-formed text it is the last character.
\<close>

fun trimEnd_rev :: "string \<Rightarrow> string" where
  "trimEnd_rev (a # b # c # s) =
     (if js_whitespace [a] then trimEnd_rev (b # c # s)
      else if js_whitespace [b, a] then trimEnd_rev (c # s)
      else if js_whitespace [c, b, a] then trimEnd_rev s
      else a # b # c # s)"
| "trimEnd_rev [a, b] =
     (if js_whitespace [a] then trimEnd_rev [b]
      else if js_whitespace [b, a] then []
      else [a, b])"
| "trimEnd_rev [a] = (if js_whitespace [a] then [] else [a])"
| "trimEnd_rev [] = []"

definition js_trimEnd :: "string \<Rightarrow> string" where
  "js_trimEnd s = rev (trimEnd_rev (rev s))"

definition js_trim :: "string \<Rightarrow> string" where
  "js_trim s = js_trimEnd (js_trimStart s)"

fun js_split :: "char \<Rightarrow> string \<Rightarrow> string list" where
  "js_split sep [] = [[]]"
| "js_split sep (c # cs) =
     (if c = sep then [] # js_split sep cs
      else (case js_split sep cs of
              w # ws \<Rightarrow> (c # w) # ws
            | [] \<Rightarrow> [[c]]))"

fun js_join :: "string \<Rightarrow> string list \<Rightarrow> string" where
  "js_join sep [] = []"
| "js_join sep [w] = w"
| "js_join sep (w # v # ws) = w @ sep @ js_join sep (v # ws)"

definition star :: string where
  "star = [CHR 0xE2, CHR 0xAD, CHR 0x90]"

section \<open>Movies and cards\<close>

text \<open>
  A movie as the card renderer and the modal read it. The script never reads the
  movie's \<^verbatim>\<open>id\<close>.
\<close>

record movie =
  title :: "string field"
  overview :: "string field"
  genres :: "string field"
  languages :: "string field"
  year :: "int field"
  rating :: "int field"
  poster_url :: "string field"
  similarity :: "int field"

text \<open>
  The element \<^verbatim>\<open>createCard\<close> returns: its class name, the markup assigned to its
  \<^verbatim>\<open>innerHTML\<close>, and the movie its click handler passes to \<^verbatim>\<open>openModal\<close>.
\<close>

record card =
  className :: string
  innerHTML :: string
  onclick :: movie

text \<open>\<^verbatim>\<open>movie.genres ? movie.genres.split(' ').slice(0, 2) : []\<close>, mapped to tags and joined.\<close>

definition genreTags :: "movie \<Rightarrow> string" where
  \<open>genreTags movie =
     (let gs = (case genres movie of
                  Val s \<Rightarrow> if s \<noteq> [] then take 2 (js_split (CHR '' '') s) else []
                | Null \<Rightarrow> []
                | Absent \<Rightarrow> [])
      in concat (map (\<lambda>g. ''<span class="genre-tag">'' @ g @ ''</span>'') gs))\<close>

definition langList :: "movie \<Rightarrow> string" where
  \<open>langList movie =
     (case languages movie of
        Val s \<Rightarrow> if s \<noteq> [] then js_join ''/'' (js_split (CHR '' '') s) else ''''
      | Null \<Rightarrow> ''''
      | Absent \<Rightarrow> '''')\<close>

definition posterHtml :: "movie \<Rightarrow> string" where
  \<open>posterHtml movie =
     (if (case poster_url movie of
            Val s \<Rightarrow> s \<noteq> [] \<and> js_trim s \<noteq> []
          | Null \<Rightarrow> False
          | Absent \<Rightarrow> False)
      then ''<img src="'' @ tpl_str (poster_url movie) @ ''" alt="'' @ tpl_str (title movie)
           @ ''" onerror="this.style.display='none'; this.nextElementSibling.style.display='flex'">\<newline>''
           @ ''         <div class="card-placeholder" style="display:none;">'' @ tpl_str (title movie)
           @ ''</div>''
      else ''<div class="card-placeholder">'' @ tpl_str (title movie) @ ''</div>'')\<close>

text \<open>\<^verbatim>\<open>(movie.overview || '').substring(0, 100)\<close>\<close>

definition overview_excerpt :: "movie \<Rightarrow> string" where
  "overview_excerpt movie =
     take 100 (if truthy_str (overview movie) then tpl_str (overview movie) else '''')"

text \<open>The three interpolations of the overlay's \<^verbatim>\<open>card-meta\<close> block.\<close>

definition year_badge :: "movie \<Rightarrow> string" where
  \<open>year_badge movie =
     (if truthy_num (year movie)
      then ''<span class="badge"><i class="fas fa-calendar"></i> '' @ tpl_num (year movie) @ ''</span>''
      else '''')\<close>

definition rating_badge :: "movie \<Rightarrow> string" where
  \<open>rating_badge movie =
     (if truthy_num (rating movie)
      then ''<span class="badge"><i class="fas fa-star"></i> '' @ tpl_num (rating movie) @ ''</span>''
      else '''')\<close>

definition similarity_badge :: "movie \<Rightarrow> string" where
  \<open>similarity_badge movie =
     (if gt_zero (similarity movie)
      then ''<span class="badge"><i class="fas fa-bolt"></i> '' @ tpl_num (similarity movie) @ ''%</span>''
      else '''')\<close>

text \<open>\<^verbatim>\<open>movie.genres ? movie.genres.split(' ')[0] : 'N/A'\<close>\<close>

definition first_genre :: "movie \<Rightarrow> string" where
  "first_genre movie =
     (case genres movie of
        Val s \<Rightarrow> if s \<noteq> []
                 then (case js_split (CHR '' '') s of w # ws \<Rightarrow> w | [] \<Rightarrow> ''undefined'')
                 else ''N/A''
      | Null \<Rightarrow> ''N/A''
      | Absent \<Rightarrow> ''N/A'')"

definition card_match :: "movie \<Rightarrow> string" where
  \<open>card_match movie =
     (if truthy_num (similarity movie)
      then ''<p class="card-match">Match: '' @ tpl_num (similarity movie) @ ''%</p>''
      else '''')\<close>

definition card_languages :: "movie \<Rightarrow> string" where
  \<open>card_languages movie =
     (if langList movie \<noteq> []
      then ''<p class="card-languages"><strong>Available In:</strong> '' @ langList movie @ ''</p>''
      else '''')\<close>

definition createCard :: "movie \<Rightarrow> card" where
  \<open>createCard movie =
     \<lparr> className = ''card'',
       innerHTML =
         ''\<newline>''
         @ ''        <div class="card-poster">\<newline>''
         @ ''            '' @ posterHtml movie @ ''\<newline>''
         @ ''            <div class="card-overlay">\<newline>''
         @ ''                <div class="card-info">\<newline>''
         @ ''                    <h3>'' @ tpl_str (title movie) @ ''</h3>\<newline>''
         @ ''                    <p>'' @ overview_excerpt movie @ ''...</p>\<newline>''
         @ ''                    <div class="card-meta">\<newline>''
         @ ''                        '' @ year_badge movie @ ''\<newline>''
         @ ''                        '' @ rating_badge movie @ ''\<newline>''
         @ ''                        '' @ similarity_badge movie @ ''\<newline>''
         @ ''                    </div>\<newline>''
         @ ''                    <div class="card-genres">'' @ genreTags movie @ ''</div>\<newline>''
         @ ''                </div>\<newline>''
         @ ''            </div>\<newline>''
         @ ''        </div>\<newline>''
         @ ''        <div class="card-content">\<newline>''
         @ ''            <h4 class="card-title">'' @ tpl_str (title movie) @ ''</h4>\<newline>''
         @ ''            <div class="card-meta">\<newline>''
         @ ''                 <span class="badge"><strong>'' @ first_genre movie @ ''</strong></span>\<newline>''
         @ ''                 <span class="card-rating">'' @ star @ '' '' @ tpl_num (rating movie) @ ''/10</span>\<newline>''
         @ ''                 <span class="card-rating">'' @ star @ '' '' @ tpl_num (rating movie) @ ''/10</span>\<newline>''
         @ ''            </div>\<newline>''
         @ ''            '' @ card_match movie @ ''\<newline>''
         @ ''            '' @ card_languages movie @ ''\<newline>''
         @ ''        </div>\<newline>''
         @ ''    '',
       onclick = movie \<rparr>\<close>

section \<open>The page\<close>

text \<open>
  What a \<^verbatim>\<open>catch\<close> block receives: the rejection of a fetch, the error of
  \<^verbatim>\<open>response.json()\<close> on a body that is not JSON, or the error of reading a property of
  \<^verbatim>\<open>null\<close> or \<^verbatim>\<open>undefined\<close>.
\<close>

datatype js_error = NetworkError | SyntaxError | TypeError

text \<open>
  What awaiting \<^verbatim>\<open>fetch(...)\<close> and then \<^verbatim>\<open>response.json()\<close> can give: the fetch
  rejects, the body is not JSON, the body is the JSON value \<^verbatim>\<open>null\<close> (reading a property
  of it throws), or the body is a value whose properties read as \<open>data\<close>.
\<close>

datatype 'a fetch_outcome = Rejected | BodyNotJson | JsonNull | Json 'a

record recommend_response =
  not_found :: "bool field"
  suggestions :: "movie list field"
  recommendations :: "movie list field"

record favorite_response =
  success :: "bool field"

text \<open>
  Request bodies, in the order of the object literals: \<^verbatim>\<open>movies\<close>, \<^verbatim>\<open>genres\<close>,
  \<^verbatim>\<open>languages\<close>, \<^verbatim>\<open>keyword\<close> for \<^verbatim>\<open>/recommend\<close>; \<^verbatim>\<open>action\<close>, \<^verbatim>\<open>movie_id\<close>,
  \<^verbatim>\<open>movie_title\<close>, \<^verbatim>\<open>overview\<close>, \<^verbatim>\<open>genres\<close>, \<^verbatim>\<open>year\<close>, \<^verbatim>\<open>rating\<close>, \<^verbatim>\<open>poster_url\<close>
  for \<^verbatim>\<open>/api/favorites\<close>.
\<close>

datatype request =
  PostRecommend "string list" "string list" "string list" string
| PostFavorites string "int field" "string field" "string field" "string field"
    "int field" "int field" "string field"

datatype element = ElNotFound | ElResults

text \<open>
  The part of the document and of the browser the script touches. Each element the script
  looks up by id is there, except \<^verbatim>\<open>featuredSection\<close>, which the script tests for
  \<^verbatim>\<open>null\<close>: \<open>None\<close> is the page without that element. For an element with a
  \<^verbatim>\<open>style.display\<close> the field is that display value, for a grid its child cards, for the
  title its text, for an input its value, for the back-to-top button its class list. The
  last fields log what the script does to the world outside the document.
\<close>

record page =
  movieInput :: string
  genreSelect :: string
  languageSelect :: string
  loading :: string
  notFound :: string
  results :: string
  featuredSection :: "string option"
  suggestionsGrid :: "card list"
  resultsGrid :: "card list"
  resultsTitle :: string
  modal :: string
  modalGallery :: string
  backToTopBtn :: "string list"
  alerts :: "string list"
  console_errors :: "js_error list"
  requests :: "request list"
  scrolledIntoView :: "element list"
  scrollTo_calls :: "nat list"

text \<open>\<^verbatim>\<open>classList.add\<close>, \<^verbatim>\<open>classList.remove\<close>, \<^verbatim>\<open>classList.toggle\<close>.\<close>

definition classList_add :: "string \<Rightarrow> string list \<Rightarrow> string list" where
  "classList_add t cs = (if t \<in> set cs then cs else cs @ [t])"

definition classList_remove :: "string \<Rightarrow> string list \<Rightarrow> string list" where
  "classList_remove t cs = removeAll t cs"

definition classList_toggle :: "string \<Rightarrow> string list \<Rightarrow> string list" where
  "classList_toggle t cs = (if t \<in> set cs then removeAll t cs else cs @ [t])"

section \<open>The detail modal\<close>

definition openModal :: "movie \<Rightarrow> page \<Rightarrow> page" where
  \<open>openModal movie p =
     p\<lparr> modalGallery :=
          ''\<newline>''
          @ ''        <div class="gallery-wrapper">\<newline>''
          @ ''            <img src="'' @ tpl_str (poster_url movie) @ ''" alt="'' @ tpl_str (title movie)
          @ ''" class="gallery-img">\<newline>''
          @ ''            <div class="gallery-info">\<newline>''
          @ ''                <h2>'' @ tpl_str (title movie) @ ''</h2>\<newline>''
          @ ''                <p><strong>Rating:</strong> '' @ star @ '' ''
          @ (if truthy_num (rating movie) then tpl_num (rating movie) else ''N/A'') @ ''/10</p>\<newline>''
          @ ''                <p><strong>Year:</strong> ''
          @ (if truthy_num (year movie) then tpl_num (year movie) else ''N/A'') @ ''</p>\<newline>''
          @ ''                <p><strong>Languages:</strong> ''
          @ (if truthy_str (languages movie) then tpl_str (languages movie) else ''N/A'') @ ''</p>\<newline>''
          @ ''                <p><strong>Genres:</strong> ''
          @ (if truthy_str (genres movie) then tpl_str (genres movie) else ''N/A'') @ ''</p>\<newline>''
          @ ''                <p><strong>Plot:</strong> ''
          @ (if truthy_str (overview movie) then tpl_str (overview movie) else ''No overview available.'')
          @ ''</p>\<newline>''
          @ ''            </div>\<newline>''
          @ ''        </div>\<newline>''
          @ ''    '',
        modal := ''flex'' \<rparr>\<close>

definition closeModal :: "page \<Rightarrow> page" where
  "closeModal p = p\<lparr> modal := ''none'' \<rparr>"

text \<open>\<^verbatim>\<open>card.onclick = () => openModal(movie)\<close>\<close>

definition click_card :: "card \<Rightarrow> page \<Rightarrow> page" where
  "click_card c p = openModal (onclick c) p"

text \<open>The click listener of the modal; the argument says whether the target is the modal itself.\<close>

definition modal_click :: "bool \<Rightarrow> page \<Rightarrow> page" where
  "modal_click target_is_modal p = (if target_is_modal then closeModal p else p)"

section \<open>The search form\<close>

text \<open>Lines 25 to 28: the loading state.\<close>

definition show_loading :: "page \<Rightarrow> page" where
  "show_loading p =
     p\<lparr> loading := ''flex'',
        notFound := ''none'',
        results := ''none'',
        featuredSection := (case featuredSection p of Some d \<Rightarrow> Some ''none'' | None \<Rightarrow> None) \<rparr>"

text \<open>The call of \<^verbatim>\<open>fetch('/recommend', ...)\<close>: the request leaves the page.\<close>

definition fetch_recommend :: "string \<Rightarrow> string \<Rightarrow> string \<Rightarrow> page \<Rightarrow> page" where
  "fetch_recommend movieName genre language p =
     p\<lparr> requests := requests p @
          [PostRecommend [movieName]
             (if genre \<noteq> [] then [genre] else [])
             (if language \<noteq> [] then [language] else [])
             []] \<rparr>"

text \<open>
  The handler up to its first \<^verbatim>\<open>await\<close>, for a name that passed the check: the state of
  the page while the request is pending.
\<close>

definition submit_pending :: "string \<Rightarrow> string \<Rightarrow> string \<Rightarrow> page \<Rightarrow> page" where
  "submit_pending movieName genre language p =
     fetch_recommend movieName genre language (show_loading p)"

text \<open>\<^verbatim>\<open>list.forEach(movie => grid.appendChild(createCard(movie)))\<close> on the children of a grid.\<close>

definition append_cards :: "movie list \<Rightarrow> card list \<Rightarrow> card list" where
  "append_cards ms grid = fold (\<lambda>movie g. g @ [createCard movie]) ms grid"

text \<open>
  The \<^verbatim>\<open>try\<close> block after the request was sent. The result is the page as the block left
  it, with the error it threw, if any.
\<close>

definition try_block ::
  "string \<Rightarrow> string \<Rightarrow> string \<Rightarrow> recommend_response fetch_outcome \<Rightarrow> page \<Rightarrow> js_error option \<times> page" where
  \<open>try_block movieName genre language outcome p =
     (case outcome of
        Rejected \<Rightarrow> (Some NetworkError, p)
      | BodyNotJson \<Rightarrow> (Some SyntaxError, p)
      | JsonNull \<Rightarrow> (Some TypeError, p)
      | Json data \<Rightarrow>
          if truthy_bool (not_found data) then
            (let p1 = p\<lparr> suggestionsGrid := [] \<rparr> in
             case suggestions data of
               Val ms \<Rightarrow>
                 (None,
                  p1\<lparr> suggestionsGrid := append_cards ms (suggestionsGrid p1),
                      notFound := ''block'',
                      scrolledIntoView := scrolledIntoView p1 @ [ElNotFound] \<rparr>)
             | Null \<Rightarrow> (Some TypeError, p1)
             | Absent \<Rightarrow> (Some TypeError, p1))
          else if (case recommendations data of
                     Val ms \<Rightarrow> 0 < length ms
                   | Null \<Rightarrow> False
                   | Absent \<Rightarrow> False) then
            (let title0 = ''Movies similar to "'' @ movieName @ ''"'';
                 title1 = (if genre \<noteq> [] then title0 @ '' in '' @ genre else title0);
                 title2 = (if language \<noteq> [] then title1 @ '' ('' @ language @ '')'' else title1);
                 p1 = p\<lparr> resultsTitle := title2, resultsGrid := [] \<rparr>
             in (None,
                 p1\<lparr> resultsGrid :=
                       append_cards (case recommendations data of Val ms \<Rightarrow> ms | Null \<Rightarrow> [] | Absent \<Rightarrow> [])
                         (resultsGrid p1),
                     results := ''block'',
                     scrolledIntoView := scrolledIntoView p1 @ [ElResults] \<rparr>))
          else (None, p\<lparr> alerts := alerts p @ [''No recommendations found''] \<rparr>))\<close>

definition catch_block :: "js_error \<Rightarrow> page \<Rightarrow> page" where
  "catch_block err p =
     p\<lparr> console_errors := console_errors p @ [err],
        alerts := alerts p @ [''Failed to get recommendations''] \<rparr>"

definition finally_block :: "page \<Rightarrow> page" where
  "finally_block p = p\<lparr> loading := ''none'' \<rparr>"

text \<open>The handler from the moment the awaited request settles with \<open>outcome\<close>.\<close>

definition submit_resume ::
  "string \<Rightarrow> string \<Rightarrow> string \<Rightarrow> recommend_response fetch_outcome \<Rightarrow> page \<Rightarrow> page" where
  "submit_resume movieName genre language outcome p =
     (case try_block movieName genre language outcome p of
        (None, p') \<Rightarrow> finally_block p'
      | (Some err, p') \<Rightarrow> finally_block (catch_block err p'))"

text \<open>
  The submit listener, run to its end with no other listener in between. \<open>outcome\<close> is what
  the request settles with, if one is sent. \<^verbatim>\<open>e.preventDefault()\<close> acts on the event only.
\<close>

definition submit_handler :: "recommend_response fetch_outcome \<Rightarrow> page \<Rightarrow> page" where
  "submit_handler outcome p =
     (let movieName = js_trim (movieInput p);
          genre = genreSelect p;
          language = languageSelect p
      in if movieName = [] then p\<lparr> alerts := alerts p @ [''Please enter a movie name''] \<rparr>
         else submit_resume movieName genre language outcome
                (submit_pending movieName genre language p))"

section \<open>The favorite toggle\<close>

text \<open>
  \<^verbatim>\<open>toggleFav(event, movieId, title, overview, genres, year, rating, poster)\<close>. The first
  component of the state is the class list of \<^verbatim>\<open>event.currentTarget\<close>, the button;
  \<open>outcome\<close> is what the request to \<^verbatim>\<open>/api/favorites\<close> settles with.
  \<^verbatim>\<open>event.stopPropagation()\<close> acts on the event only.
\<close>

definition toggleFav ::
  "int field \<Rightarrow> string field \<Rightarrow> string field \<Rightarrow> string field \<Rightarrow> int field \<Rightarrow> int field \<Rightarrow> string field
     \<Rightarrow> favorite_response fetch_outcome \<Rightarrow> string list \<times> page \<Rightarrow> string list \<times> page" where
  "toggleFav movieId mtitle moverview mgenres myear mrating poster outcome st =
     (let btn = fst st;
          p = (snd st)\<lparr> requests := requests (snd st) @
                 [PostFavorites ''toggle'' movieId mtitle moverview mgenres myear mrating poster] \<rparr>
      in case outcome of
           Rejected \<Rightarrow> (btn, p\<lparr> console_errors := console_errors p @ [NetworkError] \<rparr>)
         | BodyNotJson \<Rightarrow> (btn, p\<lparr> console_errors := console_errors p @ [SyntaxError] \<rparr>)
         | JsonNull \<Rightarrow> (btn, p\<lparr> console_errors := console_errors p @ [TypeError] \<rparr>)
         | Json data \<Rightarrow>
             if truthy_bool (success data) then (classList_toggle ''favorited'' btn, p)
             else (btn, p))"

section \<open>The back-to-top button\<close>

text \<open>The scroll listener; \<open>scrollY\<close> is \<^verbatim>\<open>window.scrollY\<close> when it runs.\<close>

definition scroll_handler :: "real \<Rightarrow> page \<Rightarrow> page" where
  "scroll_handler scrollY p =
     (if scrollY > 300 then p\<lparr> backToTopBtn := classList_add ''visible'' (backToTopBtn p) \<rparr>
      else p\<lparr> backToTopBtn := classList_remove ''visible'' (backToTopBtn p) \<rparr>)"

definition backToTop_click :: "page \<Rightarrow> page" where
  "backToTop_click p = p\<lparr> scrollTo_calls := scrollTo_calls p @ [0] \<rparr>"

section \<open>Panel visibility\<close>

text \<open>
  An element whose inline \<^verbatim>\<open>style.display\<close> is \<^verbatim>\<open>none\<close> is hidden; the other values the
  script writes (\<^verbatim>\<open>block\<close>, \<^verbatim>\<open>flex\<close>) show it. \<open>visible_panels\<close> counts the visible ones
  among the results panel, the not-found panel and the featured section.
\<close>

definition visible :: "string \<Rightarrow> bool" where
  "visible d = (d \<noteq> ''none'')"

definition visible_panels :: "page \<Rightarrow> nat" where
  "visible_panels p =
     (if visible (results p) then 1 else 0)
     + (if visible (notFound p) then 1 else 0)
     + (case featuredSection p of Some d \<Rightarrow> if visible d then 1 else 0 | None \<Rightarrow> 0)"

section \<open>Sample inputs\<close>

definition inception :: movie where
  "inception =
     \<lparr> title = Val ''Inception'', overview = Val ''A thief enters dreams.'',
       genres = Val ''Action Sci-Fi Thriller'', languages = Val ''en fr'',
       year = Val 2010, rating = Val 8, poster_url = Val ''/p/inception.jpg'',
       similarity = Val 42 \<rparr>"

definition unrated :: movie where
  "unrated =
     \<lparr> title = Val ''Untitled Project'', overview = Absent, genres = Val ''Drama'',
       languages = Absent, year = Val 2024, rating = Val 0, poster_url = Val ''/p/u.jpg'',
       similarity = Val 0 \<rparr>"

definition no_poster :: movie where
  "no_poster =
     \<lparr> title = Val ''Heat'', overview = Val ''A crew of thieves.'', genres = Val ''Crime'',
       languages = Val ''en'', year = Val 1995, rating = Val 8, poster_url = Absent,
       similarity = Val 77 \<rparr>"

text \<open>A freshly loaded page showing the featured section, with a query typed in.\<close>

definition page0 :: page where
  "page0 =
     \<lparr> movieInput = ''  Inception '', genreSelect = ''Action'', languageSelect = '''',
       loading = ''none'', notFound = ''none'', results = ''none'',
       featuredSection = Some ''block'',
       suggestionsGrid = [], resultsGrid = [], resultsTitle = ''Featured'',
       modal = ''none'', modalGallery = '''', backToTopBtn = [],
       alerts = [], console_errors = [], requests = [], scrolledIntoView = [],
       scrollTo_calls = [] \<rparr>"

definition resp_not_found :: recommend_response where
  "resp_not_found =
     \<lparr> not_found = Val True, suggestions = Val [inception, unrated], recommendations = Absent \<rparr>"

definition resp_recs :: recommend_response where
  "resp_recs =
     \<lparr> not_found = Val False, suggestions = Absent, recommendations = Val [inception, no_poster] \<rparr>"

definition untitled :: movie where
  "untitled =
     \<lparr> title = Absent, overview = Val ''A heist goes wrong.'', genres = Val ''Crime Drama'',
       languages = Val ''en'', year = Val 1992, rating = Val 8, poster_url = Val ''/p/rd.jpg'',
       similarity = Val 64 \<rparr>"

definition fav_ok :: favorite_response where
  "fav_ok = \<lparr> success = Val True \<rparr>"

definition resp_empty :: recommend_response where
  "resp_empty =
     \<lparr> not_found = Val False, suggestions = Absent, recommendations = Val [] \<rparr>"

section \<open>Auxiliary facts\<close>

lemma append_cards_eq: "append_cards ms grid = grid @ map createCard ms"
  unfolding append_cards_def by (induction ms arbitrary: grid) simp_all

lemma trimStart_one:
  assumes "js_whitespace [a]"
  shows "js_trimStart (a # s) = js_trimStart s"
proof (cases s)
  case Nil
  with assms show ?thesis by simp
next
  case (Cons x t)
  with assms show ?thesis by (cases t) simp_all
qed

lemma trimStart_two:
  assumes "js_whitespace [a, b]" and "\<not> js_whitespace [a]"
  shows "js_trimStart (a # b # s) = js_trimStart s"
  using assms by (cases s) simp_all

lemma trimStart_three:
  assumes "js_whitespace [a, b, c]" and "\<not> js_whitespace [a]" and "\<not> js_whitespace [a, b]"
  shows "js_trimStart (a # b # c # s) = js_trimStart s"
  using assms by simp

lemma whitespace_length:
  "js_whitespace w \<Longrightarrow> (\<exists>a. w = [a]) \<or> (\<exists>a b. w = [a, b]) \<or> (\<exists>a b c. w = [a, b, c])"
  unfolding js_whitespace_def whitespace_encodings_def
  by (simp, elim disjE) simp_all

lemma lead_two: "js_whitespace [a, b] \<Longrightarrow> a = CHR 0xC2"
  by (simp add: js_whitespace_def whitespace_encodings_def)

lemma lead_three:
  "js_whitespace [a, b, c] \<Longrightarrow> a = CHR 0xE1 \<or> a = CHR 0xE2 \<or> a = CHR 0xE3 \<or> a = CHR 0xEF"
  by (auto simp: js_whitespace_def whitespace_encodings_def)

lemma not_one: "\<not> js_whitespace [CHR 0xC2]" "\<not> js_whitespace [CHR 0xE1]" "\<not> js_whitespace [CHR 0xE2]"
  "\<not> js_whitespace [CHR 0xE3]" "\<not> js_whitespace [CHR 0xEF]"
  by (simp_all add: js_whitespace_def whitespace_encodings_def)

lemma not_two: "\<not> js_whitespace [CHR 0xE1, b]" "\<not> js_whitespace [CHR 0xE2, b]"
  "\<not> js_whitespace [CHR 0xE3, b]" "\<not> js_whitespace [CHR 0xEF, b]"
  by (simp_all add: js_whitespace_def whitespace_encodings_def)

lemma js_trimStart_whitespace:
  assumes "js_whitespace w"
  shows "js_trimStart (w @ s) = js_trimStart s"
proof -
  from whitespace_length [OF assms]
  consider a where "w = [a]" | a b where "w = [a, b]" | a b c where "w = [a, b, c]"
    by blast
  then show ?thesis
  proof cases
    case 1
    with assms show ?thesis by (simp add: trimStart_one del: js_trimStart.simps)
  next
    case 2
    with assms have "a = CHR 0xC2" by (simp add: lead_two)
    with 2 assms show ?thesis by (simp add: trimStart_two not_one del: js_trimStart.simps)
  next
    case 3
    with assms have "a = CHR 0xE1 \<or> a = CHR 0xE2 \<or> a = CHR 0xE3 \<or> a = CHR 0xEF"
      by (simp add: lead_three)
    with 3 assms show ?thesis
      by (elim disjE) (simp_all add: trimStart_three not_one not_two del: js_trimStart.simps)
  qed
qed

lemma js_trimStart_concat:
  "(\<forall>w\<in>set ws. js_whitespace w) \<Longrightarrow> js_trimStart (concat ws) = []"
  by (induction ws) (simp_all add: js_trimStart_whitespace)

lemma js_trim_whitespace_only:
  "(\<forall>w\<in>set ws. js_whitespace w) \<Longrightarrow> js_trim (concat ws) = []"
  by (simp add: js_trim_def js_trimEnd_def js_trimStart_concat)

lemma page0_name: "js_trim (movieInput page0) = ''Inception''"
  by (simp add: page0_def js_trim_def js_trimEnd_def js_whitespace_def whitespace_encodings_def)

lemmas handler_defs = submit_handler_def submit_resume_def submit_pending_def try_block_def
  fetch_recommend_def show_loading_def catch_block_def finally_block_def

section \<open>Cards: metadata badges\<close>

text \<open>
  The claim C3 as worded fails: the renderer tests \<^verbatim>\<open>movie.year\<close> and \<^verbatim>\<open>movie.rating\<close> for
  truthiness, so a movie whose rating is present with the value 0 gets no rating badge;
  the overlay's \<^verbatim>\<open>card-meta\<close> block of its card holds the year badge and two empty lines.
\<close>

theorem rating_zero_gets_no_badge:
  \<open>rating unrated = Val 0 \<and> rating_badge unrated = [] \<and>
   sublist (''<div class="card-meta">\<newline>''
            @ ''                        <span class="badge"><i class="fas fa-calendar"></i> 2024</span>\<newline>''
            @ ''                        \<newline>''
            @ ''                        \<newline>''
            @ ''                    </div>'')
     (innerHTML (createCard unrated))\<close>
proof -
  have b: \<open>sublist (''<div class="card-meta">\<newline>''
            @ ''                        '' @ year_badge unrated @ ''\<newline>''
            @ ''                        '' @ rating_badge unrated @ ''\<newline>''
            @ ''                        '' @ similarity_badge unrated @ ''\<newline>''
            @ ''                    </div>'')
     (innerHTML (createCard unrated))\<close>
    unfolding createCard_def by (simp add: sublist_append sublist_Cons_right)
  have y: \<open>year_badge unrated = ''<span class="badge"><i class="fas fa-calendar"></i> 2024</span>''\<close>
    by (simp add: year_badge_def unrated_def truthy_num_def tpl_num_def num_to_string_def)
  have r: "rating_badge unrated = []"
    by (simp add: rating_badge_def unrated_def truthy_num_def)
  have s: "similarity_badge unrated = []"
    by (simp add: similarity_badge_def unrated_def gt_zero_def)
  have v: "rating unrated = Val 0" by (simp add: unrated_def)
  from b show ?thesis unfolding y r s using v by simp
qed

text \<open>
  Claim C3, amended. The overlay's \<^verbatim>\<open>card-meta\<close> block of a card consists of the year
  badge, the rating badge and the similarity badge, where the year badge is there iff the
  year is present and not 0, the rating badge iff the rating is present and not 0, and
  the similarity badge iff the similarity is present and greater than 0. A movie with
  similarity 0 gets no similarity badge and a movie with similarity 42 gets the badge
  ending in \<^verbatim>\<open>42%\<close>.
\<close>

theorem card_meta_badges:
  \<open>(year_badge m \<noteq> [] \<longleftrightarrow> (\<exists>n. year m = Val n \<and> n \<noteq> 0)) \<and>
   (rating_badge m \<noteq> [] \<longleftrightarrow> (\<exists>n. rating m = Val n \<and> n \<noteq> 0)) \<and>
   (similarity_badge m \<noteq> [] \<longleftrightarrow> (\<exists>n. similarity m = Val n \<and> 0 < n)) \<and>
   (similarity m = Val 0 \<longrightarrow> similarity_badge m = []) \<and>
   (similarity m = Val 42 \<longrightarrow>
      similarity_badge m = ''<span class="badge"><i class="fas fa-bolt"></i> 42%</span>'') \<and>
   sublist (''<div class="card-meta">\<newline>''
            @ ''                        '' @ year_badge m @ ''\<newline>''
            @ ''                        '' @ rating_badge m @ ''\<newline>''
            @ ''                        '' @ similarity_badge m @ ''\<newline>''
            @ ''                    </div>'')
     (innerHTML (createCard m))\<close>
proof -
  have y: "year_badge m \<noteq> [] \<longleftrightarrow> (\<exists>n. year m = Val n \<and> n \<noteq> 0)"
    by (cases "year m") (simp_all add: year_badge_def truthy_num_def)
  have r: "rating_badge m \<noteq> [] \<longleftrightarrow> (\<exists>n. rating m = Val n \<and> n \<noteq> 0)"
    by (cases "rating m") (simp_all add: rating_badge_def truthy_num_def)
  have s: "similarity_badge m \<noteq> [] \<longleftrightarrow> (\<exists>n. similarity m = Val n \<and> 0 < n)"
    by (cases "similarity m") (simp_all add: similarity_badge_def gt_zero_def)
  have s0: "similarity m = Val 0 \<longrightarrow> similarity_badge m = []"
    by (simp add: similarity_badge_def gt_zero_def)
  have s42: \<open>similarity m = Val 42 \<longrightarrow>
      similarity_badge m = ''<span class="badge"><i class="fas fa-bolt"></i> 42%</span>''\<close>
    by (simp add: similarity_badge_def gt_zero_def tpl_num_def num_to_string_def)
  have b: \<open>sublist (''<div class="card-meta">\<newline>''
            @ ''                        '' @ year_badge m @ ''\<newline>''
            @ ''                        '' @ rating_badge m @ ''\<newline>''
            @ ''                        '' @ similarity_badge m @ ''\<newline>''
            @ ''                    </div>'')
     (innerHTML (createCard m))\<close>
    unfolding createCard_def by (simp add: sublist_append sublist_Cons_right)
  from y r s s0 s42 b show ?thesis by blast
qed

theorem card_meta_badges_witness:
  \<open>similarity inception = Val 42 \<and>
   similarity_badge inception = ''<span class="badge"><i class="fas fa-bolt"></i> 42%</span>'' \<and>
   similarity unrated = Val 0 \<and>
   similarity_badge unrated = [] \<and>
   year_badge inception \<noteq> [] \<and>
   rating_badge inception \<noteq> []\<close>
  using card_meta_badges [of inception] card_meta_badges [of unrated]
  by (simp add: inception_def unrated_def)

section \<open>The search form: rendering\<close>

text \<open>
  Claim C1. When the name passes the check and the response has a truthy \<^verbatim>\<open>not_found\<close> and
  a \<^verbatim>\<open>suggestions\<close> list of N movies, the handler leaves in the suggestions grid exactly the
  N cards rendered from that list, whatever the grid held before, shows the not-found
  panel and leaves the results panel hidden.
\<close>

theorem submit_not_found_renders_suggestions:
  assumes "js_trim (movieInput p) \<noteq> []" and "truthy_bool (not_found d)" and "suggestions d = Val ms"
  shows "suggestionsGrid (submit_handler (Json d) p) = map createCard ms \<and>
         length (suggestionsGrid (submit_handler (Json d) p)) = length ms \<and>
         notFound (submit_handler (Json d) p) = ''block'' \<and>
         results (submit_handler (Json d) p) = ''none''"
  using assms by (simp add: handler_defs append_cards_eq Let_def)

theorem submit_not_found_renders_suggestions_witness:
  "js_trim (movieInput page0) \<noteq> [] \<and> truthy_bool (not_found resp_not_found) \<and>
   suggestions resp_not_found = Val [inception, unrated] \<and>
   length (suggestionsGrid (submit_handler (Json resp_not_found) page0)) = 2 \<and>
   notFound (submit_handler (Json resp_not_found) page0) = ''block'' \<and>
   results (submit_handler (Json resp_not_found) page0) = ''none''"
proof -
  have h1: "js_trim (movieInput page0) \<noteq> []" by (simp add: page0_name)
  have h2: "truthy_bool (not_found resp_not_found)" by (simp add: resp_not_found_def truthy_bool_def)
  have h3: "suggestions resp_not_found = Val [inception, unrated]" by (simp add: resp_not_found_def)
  from submit_not_found_renders_suggestions [OF h1 h2 h3] h1 h2 h3 show ?thesis by simp
qed

text \<open>
  Claim C2. When the name passes the check and the response reaches the recommendations
  branch, the handler's \<^verbatim>\<open>else if\<close> (\<^verbatim>\<open>not_found\<close> is not truthy and \<^verbatim>\<open>recommendations\<close>
  is a non-empty list), the results title is \<^verbatim>\<open>Movies similar to "<name>"\<close> with the
  trimmed name, followed by \<^verbatim>\<open> in <genre>\<close> exactly when the selected genre is non-empty,
  followed by \<^verbatim>\<open> (<language>)\<close> exactly when the selected language is non-empty; the
  results grid holds one card per recommendation and nothing else, and the results panel
  is shown.
\<close>

theorem recommendations_title_and_grid:
  assumes "js_trim (movieInput p) \<noteq> []" and "\<not> truthy_bool (not_found d)"
    and "recommendations d = Val ms" and "ms \<noteq> []"
  shows \<open>resultsTitle (submit_handler (Json d) p) =
           ''Movies similar to "'' @ js_trim (movieInput p) @ ''"''
           @ (if genreSelect p \<noteq> [] then '' in '' @ genreSelect p else [])
           @ (if languageSelect p \<noteq> [] then '' ('' @ languageSelect p @ '')'' else []) \<and>
         resultsGrid (submit_handler (Json d) p) = map createCard ms \<and>
         length (resultsGrid (submit_handler (Json d) p)) = length ms \<and>
         results (submit_handler (Json d) p) = ''block''\<close>
  using assms by (simp add: handler_defs append_cards_eq Let_def)

theorem recommendations_title_and_grid_witness:
  \<open>js_trim (movieInput page0) \<noteq> [] \<and> \<not> truthy_bool (not_found resp_recs) \<and>
   recommendations resp_recs = Val [inception, no_poster] \<and> [inception, no_poster] \<noteq> [] \<and>
   resultsTitle (submit_handler (Json resp_recs) page0) = ''Movies similar to "Inception" in Action'' \<and>
   length (resultsGrid (submit_handler (Json resp_recs) page0)) = 2 \<and>
   results (submit_handler (Json resp_recs) page0) = ''block''\<close>
proof -
  have h1: "js_trim (movieInput page0) \<noteq> []" by (simp add: page0_name)
  have h2: "\<not> truthy_bool (not_found resp_recs)" by (simp add: resp_recs_def truthy_bool_def)
  have h3: "recommendations resp_recs = Val [inception, no_poster]" by (simp add: resp_recs_def)
  have h4: "[inception, no_poster] \<noteq> []" by simp
  have g: "genreSelect page0 = ''Action''" "languageSelect page0 = []" by (simp_all add: page0_def)
  from recommendations_title_and_grid [OF h1 h2 h3 h4] h1 h2 h3 show ?thesis
    by (simp add: page0_name g)
qed

section \<open>The search form: validation and cleanup\<close>

text \<open>
  Claim C4. When the movie-name field is empty or holds only white space (a sequence
  \<open>ws\<close> of characters that \<^verbatim>\<open>trim\<close> strips, possibly none), the handler changes nothing
  but the list of alerts, to which it adds one: no request is sent, and the loading,
  not-found, results and featured panels keep their display.
\<close>

theorem blank_name_aborts:
  assumes "movieInput p = concat ws" and "\<forall>w\<in>set ws. js_whitespace w"
  shows "submit_handler outcome p = p\<lparr> alerts := alerts p @ [''Please enter a movie name''] \<rparr> \<and>
         requests (submit_handler outcome p) = requests p \<and>
         loading (submit_handler outcome p) = loading p \<and>
         notFound (submit_handler outcome p) = notFound p \<and>
         results (submit_handler outcome p) = results p \<and>
         featuredSection (submit_handler outcome p) = featuredSection p"
  using assms by (simp add: submit_handler_def js_trim_whitespace_only)

theorem blank_name_aborts_witness:
  "movieInput (page0\<lparr> movieInput := [CHR 0x20, CHR 0xC2, CHR 0xA0, CHR 0x09] \<rparr>) =
     concat [[CHR 0x20], [CHR 0xC2, CHR 0xA0], [CHR 0x09]] \<and>
   alerts (submit_handler (Json resp_recs) (page0\<lparr> movieInput := [CHR 0x20, CHR 0xC2, CHR 0xA0, CHR 0x09] \<rparr>)) =
     [''Please enter a movie name''] \<and>
   requests (submit_handler (Json resp_recs) (page0\<lparr> movieInput := [CHR 0x20, CHR 0xC2, CHR 0xA0, CHR 0x09] \<rparr>)) = [] \<and>
   featuredSection (submit_handler (Json resp_recs) (page0\<lparr> movieInput := [CHR 0x20, CHR 0xC2, CHR 0xA0, CHR 0x09] \<rparr>)) =
     Some ''block'' \<and>
   alerts (submit_handler (Json resp_recs) (page0\<lparr> movieInput := [] \<rparr>)) = [''Please enter a movie name''] \<and>
   requests (submit_handler (Json resp_recs) (page0\<lparr> movieInput := [] \<rparr>)) = []"
proof -
  have e: "movieInput (page0\<lparr> movieInput := [CHR 0x20, CHR 0xC2, CHR 0xA0, CHR 0x09] \<rparr>) =
      concat [[CHR 0x20], [CHR 0xC2, CHR 0xA0], [CHR 0x09]]"
    by simp
  have h: "\<forall>w\<in>set [[CHR 0x20], [CHR 0xC2, CHR 0xA0], [CHR 0x09]]. js_whitespace w"
    by (simp add: js_whitespace_def whitespace_encodings_def)
  have e0: "movieInput (page0\<lparr> movieInput := [] \<rparr>) = concat []"
    by simp
  have h0: "\<forall>w\<in>set ([] :: string list). js_whitespace w"
    by simp
  from blank_name_aborts [OF e h, of "Json resp_recs"] blank_name_aborts [OF e0 h0, of "Json resp_recs"]
  show ?thesis by (simp add: page0_def)
qed

text \<open>
  Claim C5. When the name passes the check, the loading indicator is hidden once the
  handler has run to its end, whatever the request settled with: a rejected fetch, a body
  that is not JSON, a \<^verbatim>\<open>null\<close> body, or any parsed response (rendered as results, rendered
  as suggestions, answered with the no-recommendations alert, or failing while rendered).
\<close>

theorem loading_hidden_on_every_path:
  "js_trim (movieInput p) \<noteq> [] \<Longrightarrow> loading (submit_handler outcome p) = ''none''"
  by (simp add: handler_defs Let_def split: fetch_outcome.split field.split)

theorem loading_hidden_on_every_path_witness:
  "js_trim (movieInput page0) \<noteq> [] \<and>
   loading (submit_handler Rejected page0) = ''none'' \<and>
   loading (submit_handler BodyNotJson page0) = ''none'' \<and>
   loading (submit_handler (Json resp_recs) page0) = ''none'' \<and>
   loading (submit_handler (Json resp_not_found) page0) = ''none'' \<and>
   loading (submit_handler (Json resp_empty) page0) = ''none''"
proof -
  have h: "js_trim (movieInput page0) \<noteq> []" by (simp add: page0_name)
  from loading_hidden_on_every_path [OF h] h show ?thesis by simp
qed

text \<open>
  Claim C10. In a response that takes the \<^verbatim>\<open>not_found\<close> branch the handler leaves the
  children of the results grid and the text of the results title as they were before the
  submission; in one that takes the recommendations branch it leaves the children of the
  suggestions grid as they were.
\<close>

theorem submit_branch_frame:
  assumes "js_trim (movieInput p) \<noteq> []"
  shows "(truthy_bool (not_found d) \<longrightarrow>
            resultsGrid (submit_handler (Json d) p) = resultsGrid p \<and>
            resultsTitle (submit_handler (Json d) p) = resultsTitle p) \<and>
         (\<not> truthy_bool (not_found d) \<and> recommendations d = Val ms \<and> ms \<noteq> [] \<longrightarrow>
            suggestionsGrid (submit_handler (Json d) p) = suggestionsGrid p)"
  using assms by (simp add: handler_defs Let_def split: field.split)

theorem submit_branch_frame_witness:
  "js_trim (movieInput page0) \<noteq> [] \<and>
   truthy_bool (not_found resp_not_found) \<and>
   resultsGrid (submit_handler (Json resp_not_found) page0) = [] \<and>
   resultsTitle (submit_handler (Json resp_not_found) page0) = ''Featured'' \<and>
   \<not> truthy_bool (not_found resp_recs) \<and>
   recommendations resp_recs = Val [inception, no_poster] \<and>
   suggestionsGrid (submit_handler (Json resp_recs) page0) = []"
proof -
  have h: "js_trim (movieInput page0) \<noteq> []" by (simp add: page0_name)
  have n1: "truthy_bool (not_found resp_not_found)" by (simp add: resp_not_found_def truthy_bool_def)
  have n2: "\<not> truthy_bool (not_found resp_recs)" by (simp add: resp_recs_def truthy_bool_def)
  have r2: "recommendations resp_recs = Val [inception, no_poster]" by (simp add: resp_recs_def)
  have p0: "resultsGrid page0 = []" "resultsTitle page0 = ''Featured''" "suggestionsGrid page0 = []"
    by (simp_all add: page0_def)
  from submit_branch_frame [OF h, of resp_not_found] submit_branch_frame [OF h, of resp_recs "[inception, no_poster]"] h n1 n2 r2 p0
  show ?thesis by simp
qed

section \<open>The search form: panels\<close>

text \<open>
  The claim C8 as worded fails: the handler hides all three panels before it sends the
  request, so none of them is visible while the request is pending, and none is visible
  after a response with an empty \<^verbatim>\<open>recommendations\<close> list either.
\<close>

theorem no_panel_visible_while_pending:
  "visible_panels (submit_pending ''Inception'' ''Action'' [] page0) = 0 \<and>
   visible_panels (submit_handler (Json resp_empty) page0) = 0"
  by (simp add: handler_defs Let_def page0_name resp_empty_def truthy_bool_def visible_panels_def)
     (simp add: page0_def visible_def)

text \<open>
  Claim C8, amended. In a search cycle with no other submission in between, at the two
  moments the page can be observed (while the request is pending, and once the handler
  has run to its end) at most one of the results panel, the not-found panel and the
  featured section is visible; while the request is pending none is.
\<close>

theorem at_most_one_panel_visible:
  assumes "js_trim (movieInput p) \<noteq> []"
  shows "visible_panels (submit_pending (js_trim (movieInput p)) (genreSelect p) (languageSelect p) p) = 0 \<and>
         visible_panels (submit_handler outcome p) \<le> 1"
  using assms
  by (simp add: handler_defs Let_def visible_panels_def visible_def
        split: fetch_outcome.split field.split option.split)

theorem at_most_one_panel_visible_witness:
  "js_trim (movieInput page0) \<noteq> [] \<and>
   visible_panels (submit_pending ''Inception'' ''Action'' [] page0) = 0 \<and>
   visible_panels (submit_handler (Json resp_recs) page0) \<le> 1 \<and>
   visible_panels (submit_handler (Json resp_not_found) page0) \<le> 1 \<and>
   visible_panels (submit_handler Rejected page0) \<le> 1"
proof -
  have h: "js_trim (movieInput page0) \<noteq> []" by (simp add: page0_name)
  have g: "genreSelect page0 = ''Action''" "languageSelect page0 = []" by (simp_all add: page0_def)
  from at_most_one_panel_visible [OF h] h show ?thesis by (simp add: page0_name g)
qed

section \<open>The favorite toggle: class list\<close>

text \<open>
  Claim C6. \<^verbatim>\<open>toggleFav\<close> toggles the class \<^verbatim>\<open>favorited\<close> of the button once exactly when
  the fetch resolves, the body parses as JSON and its \<^verbatim>\<open>success\<close> is truthy, and leaves the
  class list as it was otherwise: the button has the class afterwards iff it had it before
  and the condition fails, or lacked it and the condition holds; the other classes stay.
  No path alerts; a rejected fetch leaves the class list unchanged and logs the error to
  the console.
\<close>

theorem toggleFav_flips_on_success_only:
  "fst (toggleFav mid t ov g y r po outcome (btn, p)) =
     (if (case outcome of Json data \<Rightarrow> truthy_bool (success data) | Rejected \<Rightarrow> False
          | BodyNotJson \<Rightarrow> False | JsonNull \<Rightarrow> False)
      then classList_toggle ''favorited'' btn else btn) \<and>
   (''favorited'' \<in> set (fst (toggleFav mid t ov g y r po outcome (btn, p)))) =
     ((''favorited'' \<in> set btn) \<noteq>
      (case outcome of Json data \<Rightarrow> truthy_bool (success data) | Rejected \<Rightarrow> False
          | BodyNotJson \<Rightarrow> False | JsonNull \<Rightarrow> False)) \<and>
   set (fst (toggleFav mid t ov g y r po outcome (btn, p))) - {''favorited''} = set btn - {''favorited''} \<and>
   alerts (snd (toggleFav mid t ov g y r po outcome (btn, p))) = alerts p \<and>
   fst (toggleFav mid t ov g y r po Rejected (btn, p)) = btn \<and>
   console_errors (snd (toggleFav mid t ov g y r po Rejected (btn, p))) = console_errors p @ [NetworkError]"
  by (cases outcome) (auto simp: toggleFav_def classList_toggle_def Let_def)

theorem toggleFav_flips_on_success_only_witness:
  "fst (toggleFav (Val 7) (Val ''Heat'') Absent Absent Absent Absent Absent (Json fav_ok) ([''fav-btn''], page0))
     = [''fav-btn'', ''favorited''] \<and>
   fst (toggleFav (Val 7) (Val ''Heat'') Absent Absent Absent Absent Absent (Json fav_ok)
          ([''fav-btn'', ''favorited''], page0)) = [''fav-btn''] \<and>
   fst (toggleFav (Val 7) (Val ''Heat'') Absent Absent Absent Absent Absent Rejected
          ([''fav-btn'', ''favorited''], page0)) = [''fav-btn'', ''favorited'']"
  using toggleFav_flips_on_success_only [of "Val 7" "Val ''Heat''" Absent Absent Absent Absent Absent "Json fav_ok" "[''fav-btn'']" page0]
    toggleFav_flips_on_success_only [of "Val 7" "Val ''Heat''" Absent Absent Absent Absent Absent "Json fav_ok" "[''fav-btn'', ''favorited'']" page0]
    toggleFav_flips_on_success_only [of "Val 7" "Val ''Heat''" Absent Absent Absent Absent Absent Rejected "[''fav-btn'', ''favorited'']" page0]
  by (simp add: fav_ok_def truthy_bool_def classList_toggle_def)

section \<open>The detail modal: content\<close>

text \<open>
  The claim C7 as worded fails: \<^verbatim>\<open>openModal\<close> interpolates the title with no fallback, so
  a movie without a title gives the heading and the image's alternative text
  \<^verbatim>\<open>undefined\<close>, neither \<^verbatim>\<open>N/A\<close> nor a placeholder.
\<close>

theorem openModal_untitled_shows_undefined:
  \<open>title untitled = Absent \<and>
   modalGallery (openModal untitled page0) =
     ''\<newline>        <div class="gallery-wrapper">\<newline>            <img src="/p/rd.jpg" alt="undefined" class="gallery-img">\<newline>            <div class="gallery-info">\<newline>                <h2>undefined</h2>\<newline>                <p><strong>Rating:</strong> '' @ star @ '' 8/10</p>\<newline>                <p><strong>Year:</strong> 1992</p>\<newline>                <p><strong>Languages:</strong> en</p>\<newline>                <p><strong>Genres:</strong> Crime Drama</p>\<newline>                <p><strong>Plot:</strong> A heist goes wrong.</p>\<newline>            </div>\<newline>        </div>\<newline>    ''\<close>
  by (simp add: openModal_def untitled_def tpl_str_def tpl_num_def truthy_str_def truthy_num_def num_to_string_def)

text \<open>
  Claim C7, amended. For every movie, \<^verbatim>\<open>openModal\<close> replaces the modal content with the
  poster image (its source is the poster URL when the movie has one, its alternative
  text is the title), the title as it converts to a string (no fallback), the rating and
  the year (each \<^verbatim>\<open>N/A\<close> when missing, \<^verbatim>\<open>null\<close> or 0), the languages and the genres (each
  \<^verbatim>\<open>N/A\<close> when missing, \<^verbatim>\<open>null\<close> or empty) and the overview (\<^verbatim>\<open>No overview available.\<close>
  when missing, \<^verbatim>\<open>null\<close> or empty), and then makes the modal visible. The statement leaves
  open what the source of the image is for a movie without a poster URL.
\<close>

theorem openModal_content:
  \<open>(\<exists>src. (\<forall>s. poster_url m = Val s \<longrightarrow> src = s) \<and>
      modalGallery (openModal m p) =
      ''\<newline>''
      @ ''        <div class="gallery-wrapper">\<newline>''
      @ ''            <img src="'' @ src @ ''" alt="''
      @ (case title m of Val s \<Rightarrow> s | Null \<Rightarrow> ''null'' | Absent \<Rightarrow> ''undefined'')
      @ ''" class="gallery-img">\<newline>''
      @ ''            <div class="gallery-info">\<newline>''
      @ ''                <h2>'' @ (case title m of Val s \<Rightarrow> s | Null \<Rightarrow> ''null'' | Absent \<Rightarrow> ''undefined'') @ ''</h2>\<newline>''
      @ ''                <p><strong>Rating:</strong> '' @ star @ '' ''
      @ (case rating m of Val n \<Rightarrow> if n = 0 then ''N/A'' else num_to_string n | Null \<Rightarrow> ''N/A'' | Absent \<Rightarrow> ''N/A'')
      @ ''/10</p>\<newline>''
      @ ''                <p><strong>Year:</strong> ''
      @ (case year m of Val n \<Rightarrow> if n = 0 then ''N/A'' else num_to_string n | Null \<Rightarrow> ''N/A'' | Absent \<Rightarrow> ''N/A'')
      @ ''</p>\<newline>''
      @ ''                <p><strong>Languages:</strong> ''
      @ (case languages m of Val s \<Rightarrow> if s = [] then ''N/A'' else s | Null \<Rightarrow> ''N/A'' | Absent \<Rightarrow> ''N/A'')
      @ ''</p>\<newline>''
      @ ''                <p><strong>Genres:</strong> ''
      @ (case genres m of Val s \<Rightarrow> if s = [] then ''N/A'' else s | Null \<Rightarrow> ''N/A'' | Absent \<Rightarrow> ''N/A'')
      @ ''</p>\<newline>''
      @ ''                <p><strong>Plot:</strong> ''
      @ (case overview m of Val s \<Rightarrow> if s = [] then ''No overview available.'' else s
         | Null \<Rightarrow> ''No overview available.'' | Absent \<Rightarrow> ''No overview available.'')
      @ ''</p>\<newline>''
      @ ''            </div>\<newline>''
      @ ''        </div>\<newline>''
      @ ''    '') \<and>
   modal (openModal m p) = ''flex''\<close>
proof -
  have t: "tpl_str (title m) = (case title m of Val s \<Rightarrow> s | Null \<Rightarrow> ''null'' | Absent \<Rightarrow> ''undefined'')"
    by (simp add: tpl_str_def)
  have r: "(if truthy_num (rating m) then tpl_num (rating m) else ''N/A'') =
      (case rating m of Val n \<Rightarrow> if n = 0 then ''N/A'' else num_to_string n | Null \<Rightarrow> ''N/A'' | Absent \<Rightarrow> ''N/A'')"
    by (simp add: truthy_num_def tpl_num_def split: field.split)
  have y: "(if truthy_num (year m) then tpl_num (year m) else ''N/A'') =
      (case year m of Val n \<Rightarrow> if n = 0 then ''N/A'' else num_to_string n | Null \<Rightarrow> ''N/A'' | Absent \<Rightarrow> ''N/A'')"
    by (simp add: truthy_num_def tpl_num_def split: field.split)
  have l: "(if truthy_str (languages m) then tpl_str (languages m) else ''N/A'') =
      (case languages m of Val s \<Rightarrow> if s = [] then ''N/A'' else s | Null \<Rightarrow> ''N/A'' | Absent \<Rightarrow> ''N/A'')"
    by (simp add: truthy_str_def tpl_str_def split: field.split)
  have g: "(if truthy_str (genres m) then tpl_str (genres m) else ''N/A'') =
      (case genres m of Val s \<Rightarrow> if s = [] then ''N/A'' else s | Null \<Rightarrow> ''N/A'' | Absent \<Rightarrow> ''N/A'')"
    by (simp add: truthy_str_def tpl_str_def split: field.split)
  have ov: "(if truthy_str (overview m) then tpl_str (overview m) else ''No overview available.'') =
      (case overview m of Val s \<Rightarrow> if s = [] then ''No overview available.'' else s
         | Null \<Rightarrow> ''No overview available.'' | Absent \<Rightarrow> ''No overview available.'')"
    by (simp add: truthy_str_def tpl_str_def split: field.split)
  have vis: "modal (openModal m p) = ''flex''"
    by (simp add: openModal_def)
  have src: "\<forall>s. poster_url m = Val s \<longrightarrow> tpl_str (poster_url m) = s"
    by (simp add: tpl_str_def)
  have content: \<open>modalGallery (openModal m p) =
      ''\<newline>''
      @ ''        <div class="gallery-wrapper">\<newline>''
      @ ''            <img src="'' @ tpl_str (poster_url m) @ ''" alt="''
      @ (case title m of Val s \<Rightarrow> s | Null \<Rightarrow> ''null'' | Absent \<Rightarrow> ''undefined'')
      @ ''" class="gallery-img">\<newline>''
      @ ''            <div class="gallery-info">\<newline>''
      @ ''                <h2>'' @ (case title m of Val s \<Rightarrow> s | Null \<Rightarrow> ''null'' | Absent \<Rightarrow> ''undefined'') @ ''</h2>\<newline>''
      @ ''                <p><strong>Rating:</strong> '' @ star @ '' ''
      @ (case rating m of Val n \<Rightarrow> if n = 0 then ''N/A'' else num_to_string n | Null \<Rightarrow> ''N/A'' | Absent \<Rightarrow> ''N/A'')
      @ ''/10</p>\<newline>''
      @ ''                <p><strong>Year:</strong> ''
      @ (case year m of Val n \<Rightarrow> if n = 0 then ''N/A'' else num_to_string n | Null \<Rightarrow> ''N/A'' | Absent \<Rightarrow> ''N/A'')
      @ ''</p>\<newline>''
      @ ''                <p><strong>Languages:</strong> ''
      @ (case languages m of Val s \<Rightarrow> if s = [] then ''N/A'' else s | Null \<Rightarrow> ''N/A'' | Absent \<Rightarrow> ''N/A'')
      @ ''</p>\<newline>''
      @ ''                <p><strong>Genres:</strong> ''
      @ (case genres m of Val s \<Rightarrow> if s = [] then ''N/A'' else s | Null \<Rightarrow> ''N/A'' | Absent \<Rightarrow> ''N/A'')
      @ ''</p>\<newline>''
      @ ''                <p><strong>Plot:</strong> ''
      @ (case overview m of Val s \<Rightarrow> if s = [] then ''No overview available.'' else s
         | Null \<Rightarrow> ''No overview available.'' | Absent \<Rightarrow> ''No overview available.'')
      @ ''</p>\<newline>''
      @ ''            </div>\<newline>''
      @ ''        </div>\<newline>''
      @ ''    ''\<close>
    unfolding openModal_def r y l g ov t by simp
  from src content vis show ?thesis by blast
qed

theorem openModal_content_witness:
  \<open>poster_url inception = Val ''/p/inception.jpg'' \<and>
   modalGallery (openModal inception page0) =
     ''\<newline>''
     @ ''        <div class="gallery-wrapper">\<newline>''
     @ ''            <img src="/p/inception.jpg" alt="Inception" class="gallery-img">\<newline>''
     @ ''            <div class="gallery-info">\<newline>''
     @ ''                <h2>Inception</h2>\<newline>''
     @ ''                <p><strong>Rating:</strong> '' @ star @ '' 8/10</p>\<newline>''
     @ ''                <p><strong>Year:</strong> 2010</p>\<newline>''
     @ ''                <p><strong>Languages:</strong> en fr</p>\<newline>''
     @ ''                <p><strong>Genres:</strong> Action Sci-Fi Thriller</p>\<newline>''
     @ ''                <p><strong>Plot:</strong> A thief enters dreams.</p>\<newline>''
     @ ''            </div>\<newline>''
     @ ''        </div>\<newline>''
     @ ''    '' \<and>
   modal (openModal inception page0) = ''flex''\<close>
proof -
  have f: "poster_url inception = Val ''/p/inception.jpg''" "title inception = Val ''Inception''"
    "rating inception = Val 8" "year inception = Val 2010" "languages inception = Val ''en fr''"
    "genres inception = Val ''Action Sci-Fi Thriller''" "overview inception = Val ''A thief enters dreams.''"
    by (simp_all add: inception_def)
  from openModal_content [of inception page0] f show ?thesis
    by (auto simp: num_to_string_def)
qed

section \<open>The back-to-top button: visibility\<close>

text \<open>
  Claim C9. After the scroll listener has run, the back-to-top button carries the class
  \<^verbatim>\<open>visible\<close> iff the vertical scroll position exceeds 300; scrolling from 0 to 301 makes
  it visible and scrolling from 301 to 0 hides it.
\<close>

theorem backToTop_visible_iff:
  "(''visible'' \<in> set (backToTopBtn (scroll_handler y p))) = (300 < y) \<and>
   ''visible'' \<in> set (backToTopBtn (scroll_handler 301 (scroll_handler 0 p))) \<and>
   ''visible'' \<notin> set (backToTopBtn (scroll_handler 0 (scroll_handler 301 p)))"
  by (simp add: scroll_handler_def classList_add_def classList_remove_def)

end
